theory Spec2Isabelle
  imports Complex_Main "HOL-Library.AList" "HOL-Library.Multiset"
begin

section \<open>Values of type float64\<close>

text \<open>
  Go's \<^verbatim>\<open>float64\<close> arithmetic never panics: a division by zero yields an infinity or
  NaN, and every comparison with NaN is false. The model keeps these special values and
  takes every finite result to be the exact real number: rounding, overflow and underflow
  are left out, and the two zeros are one value, read as \<^verbatim>\<open>+0\<close> (every zero
  divisor of the code is a sum of squares, a length or a square root).
\<close>

datatype float64 = Fin real | PInf | NInf | NaN

fun is_Fin :: "float64 \<Rightarrow> bool" where
  "is_Fin (Fin _) = True"
| "is_Fin _ = False"

fun f64_add :: "float64 \<Rightarrow> float64 \<Rightarrow> float64" where
  "f64_add (Fin a) (Fin b) = Fin (a + b)"
| "f64_add NaN _ = NaN"
| "f64_add _ NaN = NaN"
| "f64_add PInf NInf = NaN"
| "f64_add NInf PInf = NaN"
| "f64_add PInf _ = PInf"
| "f64_add _ PInf = PInf"
| "f64_add NInf _ = NInf"
| "f64_add _ NInf = NInf"

fun f64_sub :: "float64 \<Rightarrow> float64 \<Rightarrow> float64" where
  "f64_sub (Fin a) (Fin b) = Fin (a - b)"
| "f64_sub NaN _ = NaN"
| "f64_sub _ NaN = NaN"
| "f64_sub PInf PInf = NaN"
| "f64_sub NInf NInf = NaN"
| "f64_sub PInf _ = PInf"
| "f64_sub _ PInf = NInf"
| "f64_sub NInf _ = NInf"
| "f64_sub _ NInf = PInf"

fun f64_mul :: "float64 \<Rightarrow> float64 \<Rightarrow> float64" where
  "f64_mul (Fin a) (Fin b) = Fin (a * b)"
| "f64_mul NaN _ = NaN"
| "f64_mul _ NaN = NaN"
| "f64_mul (Fin a) PInf = (if a = 0 then NaN else if 0 < a then PInf else NInf)"
| "f64_mul (Fin a) NInf = (if a = 0 then NaN else if 0 < a then NInf else PInf)"
| "f64_mul PInf (Fin b) = (if b = 0 then NaN else if 0 < b then PInf else NInf)"
| "f64_mul NInf (Fin b) = (if b = 0 then NaN else if 0 < b then NInf else PInf)"
| "f64_mul PInf PInf = PInf"
| "f64_mul PInf NInf = NInf"
| "f64_mul NInf PInf = NInf"
| "f64_mul NInf NInf = PInf"

fun f64_div :: "float64 \<Rightarrow> float64 \<Rightarrow> float64" where
  "f64_div (Fin a) (Fin b) =
     (if b \<noteq> 0 then Fin (a / b)
      else if a = 0 then NaN
      else if 0 < a then PInf else NInf)"
| "f64_div NaN _ = NaN"
| "f64_div _ NaN = NaN"
| "f64_div (Fin a) PInf = Fin 0"
| "f64_div (Fin a) NInf = Fin 0"
| "f64_div PInf (Fin b) = (if 0 \<le> b then PInf else NInf)"
| "f64_div NInf (Fin b) = (if 0 \<le> b then NInf else PInf)"
| "f64_div PInf PInf = NaN"
| "f64_div PInf NInf = NaN"
| "f64_div NInf PInf = NaN"
| "f64_div NInf NInf = NaN"

text \<open>\<^verbatim>\<open>math.Sqrt\<close>: NaN below zero, \<^verbatim>\<open>+Inf\<close> at \<^verbatim>\<open>+Inf\<close>.\<close>

fun f64_sqrt :: "float64 \<Rightarrow> float64" where
  "f64_sqrt (Fin a) = (if 0 \<le> a then Fin (sqrt a) else NaN)"
| "f64_sqrt PInf = PInf"
| "f64_sqrt NInf = NaN"
| "f64_sqrt NaN = NaN"

text \<open>The comparisons \<^verbatim>\<open><\<close> and \<^verbatim>\<open>==\<close>; \<^verbatim>\<open>a > b\<close> is \<open>f64_lt b a\<close>.\<close>

fun f64_lt :: "float64 \<Rightarrow> float64 \<Rightarrow> bool" where
  "f64_lt (Fin a) (Fin b) = (a < b)"
| "f64_lt NaN _ = False"
| "f64_lt _ NaN = False"
| "f64_lt NInf NInf = False"
| "f64_lt NInf _ = True"
| "f64_lt PInf _ = False"
| "f64_lt (Fin a) PInf = True"
| "f64_lt (Fin a) NInf = False"

fun f64_eq :: "float64 \<Rightarrow> float64 \<Rightarrow> bool" where
  "f64_eq (Fin a) (Fin b) = (a = b)"
| "f64_eq PInf PInf = True"
| "f64_eq NInf NInf = True"
| "f64_eq _ _ = False"

text \<open>\<^verbatim>\<open>math.MaxFloat64\<close>, the largest finite value: \<open>(2 - 2\<^sup>-\<^sup>5\<^sup>2) * 2\<^sup>1\<^sup>0\<^sup>2\<^sup>3\<close>.\<close>

definition MaxFloat64 :: float64 where
  "MaxFloat64 = Fin (2 ^ 1024 - 2 ^ 971)"


section \<open>The sparse sample: \<^verbatim>\<open>PlsaSample\<close>\<close>

text \<open>
  \<^verbatim>\<open>map[string]float64\<close> is an association list with distinct keys; a \<^verbatim>\<open>range\<close>
  loop visits the entries in list order, one of the orders Go may take. Every term map the
  code builds is allocated with \<^verbatim>\<open>make\<close> (in \<^verbatim>\<open>Load\<close> and in \<^verbatim>\<open>Zero\<close>), so the nil
  map is not a value of the model.
\<close>

type_synonym terms = "(string \<times> float64) list"

record PlsaSample =
  topicId :: int
  repTerms :: terms
  norm_cache :: float64

text \<open>Reading \<^verbatim>\<open>m[k]\<close>: the zero value \<^verbatim>\<open>0.0\<close> for a missing key.\<close>

definition get :: "terms \<Rightarrow> string \<Rightarrow> float64" where
  "get m k = (case map_of m k of Some v \<Rightarrow> v | None \<Rightarrow> Fin 0)"

text \<open>
  \<^verbatim>\<open>for k, _ := range m { m[k] = f(m[k]) }\<close>: the keys of the map as the loop starts,
  each entry rewritten in place.
\<close>

definition range_update :: "(float64 \<Rightarrow> float64) \<Rightarrow> terms \<Rightarrow> terms" where
  "range_update f m = fold (\<lambda>k m'. AList.update k (f (get m' k)) m') (map fst m) m"

definition Normalize :: "PlsaSample \<Rightarrow> PlsaSample" where
  "Normalize s =
     (let totalP = fold (\<lambda>(_, p) t. f64_add t p) (repTerms s) (Fin 0)
      in s\<lparr>repTerms := range_update (\<lambda>v. f64_div v totalP) (repTerms s),
            norm_cache := Fin 1\<rparr>)"

definition Id_of :: "PlsaSample \<Rightarrow> int" where
  "Id_of s = topicId s"

definition Equals :: "PlsaSample \<Rightarrow> PlsaSample \<Rightarrow> bool" where
  "Equals s a = (topicId s = topicId a)"

definition Zero :: PlsaSample where
  "Zero = \<lparr>topicId = 0, repTerms = [], norm_cache = Fin 0\<rparr>"

definition Add :: "PlsaSample \<Rightarrow> PlsaSample \<Rightarrow> PlsaSample" where
  "Add s a =
     s\<lparr>repTerms := fold (\<lambda>(k, v) m. AList.update k (f64_add (get m k) v) m)
                       (repTerms a) (repTerms s)\<rparr>"

definition ScalarMul :: "PlsaSample \<Rightarrow> float64 \<Rightarrow> PlsaSample" where
  "ScalarMul s a = s\<lparr>repTerms := range_update (\<lambda>v. f64_mul v a) (repTerms s)\<rparr>"

text \<open>The sum of squares that \<^verbatim>\<open>Norm\<close> accumulates, and its square root.\<close>

definition sum_squares :: "terms \<Rightarrow> float64" where
  "sum_squares m = fold (\<lambda>(_, v) n. f64_add n (f64_mul v v)) m (Fin 0)"

text \<open>\<^verbatim>\<open>Norm\<close> returns the norm and the sample with its cache filled.\<close>

definition Norm :: "PlsaSample \<Rightarrow> float64 \<times> PlsaSample" where
  "Norm s =
     (if f64_eq (norm_cache s) (Fin 0)
      then (let r = f64_sqrt (sum_squares (repTerms s)) in (r, s\<lparr>norm_cache := r\<rparr>))
      else (norm_cache s, s))"

definition DistanceFrom :: "PlsaSample \<Rightarrow> PlsaSample \<Rightarrow> float64" where
  "DistanceFrom s a =
     (let dist = Fin 0;
          dist = fold (\<lambda>(k, v) d. case map_of (repTerms a) k of
                         Some u \<Rightarrow> f64_add d (f64_mul (f64_sub v u) (f64_sub v u))
                       | None \<Rightarrow> d) (repTerms s) dist;
          dist = fold (\<lambda>(k, v) d. case map_of (repTerms a) k of
                         None \<Rightarrow> f64_add d (f64_mul v v)
                       | Some _ \<Rightarrow> d) (repTerms s) dist;
          dist = fold (\<lambda>(k, u) d. case map_of (repTerms s) k of
                         None \<Rightarrow> f64_add d (f64_mul u u)
                       | Some _ \<Rightarrow> d) (repTerms a) dist
      in dist)"

text \<open>The sample as a mathematical vector: finite weights, distinct keys.\<close>

definition finite_terms :: "terms \<Rightarrow> bool" where
  "finite_terms m = (distinct (map fst m) \<and> list_all (\<lambda>(_, v). is_Fin v) m)"

definition weight :: "terms \<Rightarrow> string \<Rightarrow> real" where
  "weight m k = (case map_of m k of Some (Fin r) \<Rightarrow> r | _ \<Rightarrow> 0)"

section \<open>References into the corpus and the heap\<close>

text \<open>
  A \<^verbatim>\<open>SampleContainer\<close> holds a pointer to a \<^verbatim>\<open>PlsaSample\<close>. \<^verbatim>\<open>Sample(i)\<close> returns
  \<^verbatim>\<open>&sp.samples[i]\<close>, a pointer into the supplier's slice, and \<^verbatim>\<open>Zero()\<close> allocates a
  new object. The store holds both: the slice of the supplier and the objects allocated
  since. A pointer of the program always points at a live object, so the references of a
  state are in range of the store.
\<close>

datatype ref = SampleRef nat | HeapRef nat

record store =
  samples :: "PlsaSample list"
  heap :: "PlsaSample list"

datatype panic = IntegerDivideByZero | IndexOutOfRange

definition load :: "store \<Rightarrow> ref \<Rightarrow> PlsaSample" where
  "load st r = (case r of SampleRef i \<Rightarrow> samples st ! i | HeapRef j \<Rightarrow> heap st ! j)"

definition put :: "store \<Rightarrow> ref \<Rightarrow> PlsaSample \<Rightarrow> store" where
  "put st r v =
     (case r of
        SampleRef i \<Rightarrow> st\<lparr>samples := (samples st)[i := v]\<rparr>
      | HeapRef j \<Rightarrow> st\<lparr>heap := (heap st)[j := v]\<rparr>)"

definition SampleSize :: "store \<Rightarrow> nat" where
  "SampleSize st = length (samples st)"

text \<open>\<^verbatim>\<open>Sample(i)\<close>: the slice access panics out of range.\<close>

definition Sample :: "store \<Rightarrow> nat \<Rightarrow> panic + ref" where
  "Sample st i = (if i < SampleSize st then Inr (SampleRef i) else Inl IndexOutOfRange)"

text \<open>\<^verbatim>\<open>Zero()\<close> as an allocation: the new reference and the extended store.\<close>

definition Zero_ref :: "store \<Rightarrow> ref \<times> store" where
  "Zero_ref st = (HeapRef (length (heap st)), st\<lparr>heap := heap st @ [Zero]\<rparr>)"

definition Add_ref :: "store \<Rightarrow> ref \<Rightarrow> ref \<Rightarrow> store" where
  "Add_ref st s c = put st s (Add (load st s) (load st c))"

definition ScalarMul_ref :: "store \<Rightarrow> ref \<Rightarrow> float64 \<Rightarrow> store" where
  "ScalarMul_ref st s a = put st s (ScalarMul (load st s) a)"

definition Norm_ref :: "store \<Rightarrow> ref \<Rightarrow> float64 \<times> store" where
  "Norm_ref st s = (let (n, s') = Norm (load st s) in (n, put st s s'))"

text \<open>
  \<^verbatim>\<open>CosineSim\<close>: the dot product over the keys of both, divided by the product of the
  norms; the two calls of \<^verbatim>\<open>Norm\<close> run left to right and fill the caches.
\<close>

definition CosineSim :: "store \<Rightarrow> ref \<Rightarrow> ref \<Rightarrow> float64 \<times> store" where
  "CosineSim st s c =
     (let sDota = fold (\<lambda>(k, v) acc. case map_of (repTerms (load st c)) k of
                          Some u \<Rightarrow> f64_add acc (f64_mul u v)
                        | None \<Rightarrow> acc) (repTerms (load st s)) (Fin 0);
          (ns, st1) = Norm_ref st s;
          (na, st2) = Norm_ref st1 c
      in (f64_div sDota (f64_mul ns na), st2))"


section \<open>Clusters\<close>

record Cluster =
  ClusterId :: int
  Centroid :: ref
  Members :: "ref list"

text \<open>A loop whose body may panic: the first panic ends it.\<close>

fun for_each :: "('a \<Rightarrow> 'b \<Rightarrow> panic + 'b) \<Rightarrow> 'a list \<Rightarrow> 'b \<Rightarrow> panic + 'b" where
  "for_each body [] s = Inr s"
| "for_each body (x # xs) s =
     (case body x s of Inl e \<Rightarrow> Inl e | Inr s' \<Rightarrow> for_each body xs s')"

definition Contains :: "store \<Rightarrow> Cluster \<Rightarrow> Cluster \<Rightarrow> bool" where
  "Contains st c b =
     list_all (\<lambda>u. fold (\<lambda>v found. if Equals (load st u) (load st v) then True else found)
                      (Members c) False)
              (Members b)"

definition Cluster_Equals :: "store \<Rightarrow> Cluster \<Rightarrow> Cluster \<Rightarrow> bool" where
  "Cluster_Equals st c b = (Contains st c b \<and> Contains st b c)"

definition RecalcCentroid :: "store \<Rightarrow> Cluster \<Rightarrow> bool \<Rightarrow> store \<times> Cluster" where
  "RecalcCentroid st c isSperical =
     (let (z, st) = Zero_ref st;
          st = fold (\<lambda>m st. Add_ref st z m) (Members c) st;
          st = ScalarMul_ref st z (f64_div (Fin 1) (Fin (real (length (Members c)))));
          st = (if isSperical
                then (let (n, st) = Norm_ref st z in ScalarMul_ref st z (f64_div (Fin 1) n))
                else st)
      in (st, c\<lparr>Centroid := z\<rparr>))"

text \<open>
  \<^verbatim>\<open>PairwiseConsineSimStats\<close>: the similarities of the pairs \<open>i < j\<close> in order, their
  total, and the two results; the store comes back with the norm caches filled.
\<close>

definition pair_sims :: "store \<Rightarrow> ref list \<Rightarrow> store \<times> float64 list \<times> float64" where
  "pair_sims st ms =
     fold (\<lambda>i acc.
             fold (\<lambda>j (st, sim, total).
                     let (s, st) = CosineSim st (ms ! i) (ms ! j)
                     in (st, sim @ [s], f64_add total s))
                  [i + 1 ..< length ms] acc)
          [0 ..< length ms] (st, [], Fin 0)"

definition PairwiseConsineSimStats :: "store \<Rightarrow> Cluster \<Rightarrow> (float64 \<times> float64) \<times> store" where
  "PairwiseConsineSimStats st c =
     (let n = length (Members c);
          (st, sim, total) = pair_sims st (Members c);
          avg = f64_div total (Fin (real n));
          dev = fold (\<lambda>s dev. f64_add dev (f64_mul (f64_sub s avg) (f64_sub s avg))) sim (Fin 0);
          stdev = f64_sqrt dev
      in ((avg, stdev), st))"


section \<open>Seeding: \<^verbatim>\<open>kMeanPlusPlus\<close>\<close>

text \<open>An \<^verbatim>\<open>indexDist\<close> is a corpus index with a distance.\<close>

type_synonym indexDist = "nat \<times> float64"

text \<open>First loop of \<^verbatim>\<open>normalizeIndexDist\<close>: every entry but the first adds its predecessor.\<close>

fun running :: "float64 \<Rightarrow> indexDist list \<Rightarrow> indexDist list" where
  "running prev [] = []"
| "running prev ((i, d) # xs) = (i, f64_add d prev) # running (f64_add d prev) xs"

fun cumulative :: "indexDist list \<Rightarrow> indexDist list" where
  "cumulative [] = []"
| "cumulative ((i, d) # xs) = (i, d) # running d xs"

text \<open>\<^verbatim>\<open>indexD[len(indexD)-1]\<close> panics on the empty slice.\<close>

definition normalizeIndexDist :: "indexDist list \<Rightarrow> panic + indexDist list" where
  "normalizeIndexDist indexD =
     (let indexD = cumulative indexD
      in if indexD = [] then Inl IndexOutOfRange
         else (let maxDist = snd (last indexD)
               in Inr (map (\<lambda>(i, d). (i, f64_div d maxDist)) indexD)))"

definition shortestDist :: "store \<Rightarrow> ref \<Rightarrow> Cluster list \<Rightarrow> float64" where
  "shortestDist st sample clusters =
     fold (\<lambda>c sd. let d = DistanceFrom (load st sample) (load st (Centroid c))
                  in if f64_lt d sd then d else sd)
          clusters MaxFloat64"

text \<open>The candidates of a round: the indices not chosen so far, in corpus order.\<close>

definition candidates :: "store \<Rightarrow> nat set \<Rightarrow> Cluster list \<Rightarrow> indexDist list" where
  "candidates st indList clusters =
     fold (\<lambda>sIndex indexD.
             if sIndex \<notin> indList
             then (let sd = shortestDist st (SampleRef sIndex) clusters
                   in indexD @ [(sIndex, f64_mul sd sd)])
             else indexD)
          [0 ..< SampleSize st] []"

text \<open>The loop with \<^verbatim>\<open>break\<close>: \<open>ind\<close> keeps its value when no entry exceeds the draw.\<close>

fun pick :: "indexDist list \<Rightarrow> float64 \<Rightarrow> nat \<Rightarrow> nat" where
  "pick [] newProb ind = ind"
| "pick ((i, d) # vs) newProb ind = (if f64_lt newProb d then i else pick vs newProb ind)"

text \<open>
  The random source is a parameter: \<open>rInt\<close> is the value of \<^verbatim>\<open>rand.Int()\<close> (not
  negative) and \<open>rFloat i\<close> the value of \<^verbatim>\<open>rand.Float64()\<close> drawn in round \<open>i\<close>.
\<close>

type_synonym seeding = "Cluster list \<times> nat set \<times> nat"

definition seed_round :: "store \<Rightarrow> nat \<Rightarrow> (int \<Rightarrow> real) \<Rightarrow> int \<Rightarrow> seeding \<Rightarrow> panic + seeding" where
  "seed_round st rInt rFloat i state =
     (case state of (clusters, indList, ind) \<Rightarrow>
        (case (if i = 1
               then (if SampleSize st = 0 then Inl IntegerDivideByZero
                     else Inr (rInt mod SampleSize st))
               else (case normalizeIndexDist (candidates st indList clusters) of
                       Inl e \<Rightarrow> Inl e
                     | Inr indexD \<Rightarrow> Inr (pick indexD (Fin (rFloat i)) ind))) of
           Inl e \<Rightarrow> Inl e
         | Inr ind \<Rightarrow>
             (case Sample st ind of
                Inl e \<Rightarrow> Inl e
              | Inr r \<Rightarrow>
                  Inr (clusters @ [\<lparr>ClusterId = i, Centroid = r, Members = []\<rparr>],
                       insert ind indList, ind))))"

definition kMeanPlusPlus :: "store \<Rightarrow> int \<Rightarrow> nat \<Rightarrow> (int \<Rightarrow> real) \<Rightarrow> panic + Cluster list" where
  "kMeanPlusPlus st k rInt rFloat =
     (case for_each (seed_round st rInt rFloat) [1..k] ([], {}, 0) of
        Inl e \<Rightarrow> Inl e
      | Inr (clusters, indList, ind) \<Rightarrow> Inr clusters)"


text \<open>
  The state between two rounds: the chosen indices are corpus indices and the centroids
  are exactly the samples at the chosen indices.
\<close>

definition seeded :: "store \<Rightarrow> seeding \<Rightarrow> bool" where
  "seeded st state =
     (case state of (clusters, indList, ind) \<Rightarrow>
        indList \<subseteq> {0 ..< SampleSize st}
        \<and> Centroid ` set clusters = SampleRef ` indList)"


section \<open>The Lloyd loop: \<^verbatim>\<open>kMean\<close>\<close>

text \<open>
  \<open>nearest_step\<close> is the body of the loop of \<^verbatim>\<open>nearestCentroid\<close>, for the cluster \<open>c\<close> at
  position \<open>j\<close>; the state is \<open>index\<close>, \<open>dist\<close>, \<open>sim\<close> and the store.
\<close>

definition nearest_step ::
  "ref \<Rightarrow> bool \<Rightarrow> nat \<times> Cluster \<Rightarrow> nat \<times> float64 \<times> float64 \<times> store
     \<Rightarrow> nat \<times> float64 \<times> float64 \<times> store" where
  "nearest_step sample isSpherical =
     (\<lambda>(j, c) (index, dist, sim, st).
        if isSpherical
        then (let (cSim, st) = CosineSim st sample (Centroid c)
              in if f64_lt sim cSim then (j, dist, cSim, st)
                 else (index, dist, sim, st))
        else (let cDist = DistanceFrom (load st sample) (load st (Centroid c))
              in if f64_lt cDist dist then (j, cDist, sim, st)
                 else (index, dist, sim, st)))"

definition nearestCentroid :: "store \<Rightarrow> ref \<Rightarrow> Cluster list \<Rightarrow> bool \<Rightarrow> nat \<times> store" where
  "nearestCentroid st sample clusters isSpherical =
     (let (index, dist, sim, st) =
            fold (nearest_step sample isSpherical) (enumerate 0 clusters)
                 (0, MaxFloat64, Fin 0, st)
      in (index, st))"

definition cloneClusterCentroids :: "Cluster list \<Rightarrow> Cluster list" where
  "cloneClusterCentroids clusters =
     fold (\<lambda>c newCluster.
             newCluster @ [\<lparr>ClusterId = ClusterId c, Centroid = Centroid c, Members = []\<rparr>])
          clusters []"

definition add :: "Cluster \<Rightarrow> ref \<Rightarrow> Cluster" where
  "add cluster sample = cluster\<lparr>Members := Members cluster @ [sample]\<rparr>"

text \<open>
  The assignment pass of one iteration: \<open>assign_one\<close> is the body of its loop, for the
  sample at index \<open>i\<close>; \<^verbatim>\<open>newClusters[index]\<close> panics when there is no cluster at all.
\<close>

definition assign_one ::
  "Cluster list \<Rightarrow> bool \<Rightarrow> nat \<Rightarrow> store \<times> Cluster list \<Rightarrow> panic + store \<times> Cluster list" where
  "assign_one clusters isSpherical i state =
     (case state of (st, newClusters) \<Rightarrow>
        (case Sample st i of
           Inl e \<Rightarrow> Inl e
         | Inr sample \<Rightarrow>
             (let (index, st) = nearestCentroid st sample clusters isSpherical
              in if index < length newClusters
                 then Inr (st, newClusters[index := add (newClusters ! index) sample])
                 else Inl IndexOutOfRange)))"

definition assignment :: "store \<Rightarrow> Cluster list \<Rightarrow> bool \<Rightarrow> panic + store \<times> Cluster list" where
  "assignment st clusters isSpherical =
     for_each (assign_one clusters isSpherical) [0 ..< SampleSize st]
       (st, cloneClusterCentroids clusters)"

definition update_centroids :: "store \<Rightarrow> Cluster list \<Rightarrow> bool \<Rightarrow> store \<times> Cluster list" where
  "update_centroids st newClusters isSpherical =
     fold (\<lambda>i (st, newClusters).
             let (st, c) = RecalcCentroid st (newClusters ! i) isSpherical
             in (st, newClusters[i := c]))
          [0 ..< length newClusters] (st, newClusters)"

definition clustersAreEqual :: "store \<Rightarrow> Cluster list \<Rightarrow> Cluster list \<Rightarrow> bool" where
  "clustersAreEqual st newClusters clusters =
     list_all (\<lambda>i. Cluster_Equals st (newClusters ! i) (clusters ! i)) [0 ..< length newClusters]"

text \<open>
  The loop has no bound of its own; the model counts iterations down from \<open>fuel\<close> and
  returns \<open>None\<close> when they run out. It returns the clusters of the generation before the
  one that compared equal, as the source does.
\<close>

fun kMean :: "nat \<Rightarrow> store \<Rightarrow> Cluster list \<Rightarrow> bool \<Rightarrow> (panic + store \<times> Cluster list) option" where
  "kMean 0 st clusters isSpherical = None"
| "kMean (Suc fuel) st clusters isSpherical =
     (case assignment st clusters isSpherical of
        Inl e \<Rightarrow> Some (Inl e)
      | Inr (st, newClusters) \<Rightarrow>
          (let (st, newClusters) = update_centroids st newClusters isSpherical
           in if clustersAreEqual st newClusters clusters then Some (Inr (st, clusters))
              else kMean fuel st newClusters isSpherical))"

definition KMeanCluster ::
  "nat \<Rightarrow> store \<Rightarrow> int \<Rightarrow> nat \<Rightarrow> (int \<Rightarrow> real) \<Rightarrow> (panic + store \<times> Cluster list) option" where
  "KMeanCluster fuel st k rInt rFloat =
     (case kMeanPlusPlus st k rInt rFloat of
        Inl e \<Rightarrow> Some (Inl e)
      | Inr clusters \<Rightarrow> kMean fuel st clusters False)"

definition SphericalKMeanCluster ::
  "nat \<Rightarrow> store \<Rightarrow> int \<Rightarrow> nat \<Rightarrow> (int \<Rightarrow> real) \<Rightarrow> (panic + store \<times> Cluster list) option" where
  "SphericalKMeanCluster fuel st k rInt rFloat =
     (let st = fold (\<lambda>i st. put st (SampleRef i) (Normalize (load st (SampleRef i))))
                    [0 ..< SampleSize st] st
      in case kMeanPlusPlus st k rInt rFloat of
           Inl e \<Rightarrow> Some (Inl e)
         | Inr clusters \<Rightarrow> kMean fuel st clusters True)"


text \<open>Two stores whose corpus samples carry the same identities, index by index.\<close>

definition same_ids :: "store \<Rightarrow> store \<Rightarrow> bool" where
  "same_ids st st' = (map topicId (samples st') = map topicId (samples st))"

section \<open>Concrete samples\<close>

text \<open>The two samples of the concrete scenario: overlapping keys, \<open>z\<close> on one side only.\<close>

definition scenario_a :: PlsaSample where
  "scenario_a =
     \<lparr>topicId = 1, repTerms = [(''x'', Fin 0.12), (''y'', Fin 0.22)], norm_cache = Fin 0\<rparr>"

definition scenario_b :: PlsaSample where
  "scenario_b =
     \<lparr>topicId = 2, repTerms = [(''x'', Fin 0.12), (''y'', Fin 0.22), (''z'', Fin 0.99)],
      norm_cache = Fin 0\<rparr>"


text \<open>A unit vector, a vector of two equal weights and an all-zero vector.\<close>

definition unit_x :: PlsaSample where
  "unit_x = \<lparr>topicId = 1, repTerms = [(''x'', Fin 1)], norm_cache = Fin 0\<rparr>"

definition ones_xy :: PlsaSample where
  "ones_xy = \<lparr>topicId = 1, repTerms = [(''x'', Fin 1), (''y'', Fin 1)], norm_cache = Fin 0\<rparr>"

definition zeros_xy :: PlsaSample where
  "zeros_xy = \<lparr>topicId = 1, repTerms = [(''x'', Fin 0), (''y'', Fin 0)], norm_cache = Fin 0\<rparr>"

definition zero_x :: PlsaSample where
  "zero_x = \<lparr>topicId = 7, repTerms = [(''x'', Fin 0)], norm_cache = Fin 0\<rparr>"

text \<open>Three corpora: two samples with the same weights, two and three samples on a line.\<close>

definition twins :: store where
  "twins =
     \<lparr>samples = [\<lparr>topicId = 10, repTerms = [(''x'', Fin 1)], norm_cache = Fin 0\<rparr>,
                 \<lparr>topicId = 11, repTerms = [(''x'', Fin 1)], norm_cache = Fin 0\<rparr>],
      heap = []\<rparr>"

definition pair01 :: store where
  "pair01 =
     \<lparr>samples = [\<lparr>topicId = 10, repTerms = [(''x'', Fin 0)], norm_cache = Fin 0\<rparr>,
                 \<lparr>topicId = 11, repTerms = [(''x'', Fin 1)], norm_cache = Fin 0\<rparr>],
      heap = []\<rparr>"

definition line3 :: store where
  "line3 =
     \<lparr>samples = [\<lparr>topicId = 10, repTerms = [(''x'', Fin 0)], norm_cache = Fin 0\<rparr>,
                 \<lparr>topicId = 11, repTerms = [(''x'', Fin 1)], norm_cache = Fin 0\<rparr>,
                 \<lparr>topicId = 12, repTerms = [(''x'', Fin 2)], norm_cache = Fin 0\<rparr>],
      heap = []\<rparr>"

definition no_samples :: store where
  "no_samples = \<lparr>samples = [], heap = []\<rparr>"

text \<open>The clusters seeded with the two ends of the line.\<close>

definition two_seeds :: "Cluster list" where
  "two_seeds = [\<lparr>ClusterId = 1, Centroid = SampleRef 0, Members = []\<rparr>,
                \<lparr>ClusterId = 2, Centroid = SampleRef 2, Members = []\<rparr>]"

section \<open>Properties of the sparse sample\<close>

subsection \<open>Loops over finite weights are sums\<close>

lemma fold_Fin_sum:
  assumes "distinct (map fst S)"
    and "\<And>k v d. (k, v) \<in> set S \<Longrightarrow> F (k, v) (Fin d) = Fin (d + g k)"
  shows "fold F S (Fin d0) = Fin (d0 + sum g (fst ` set S))"
  using assms
proof (induction S arbitrary: d0)
  case Nil
  then show ?case by simp
next
  case (Cons p S)
  obtain k v where p: "p = (k, v)" by (cases p)
  from Cons.prems(1) p have nk: "k \<notin> fst ` set S" and dS: "distinct (map fst S)" by auto
  have step: "F (k, v) (Fin d0) = Fin (d0 + g k)" using Cons.prems(2)[of k v d0] p by simp
  have "fold F S (Fin (d0 + g k)) = Fin (d0 + g k + sum g (fst ` set S))"
    by (rule Cons.IH[OF dS]) (simp add: Cons.prems(2))
  then show ?case using p step nk by (simp add: add.assoc)
qed

lemma map_of_finite_terms:
  "finite_terms m \<Longrightarrow> (k, v) \<in> set m \<Longrightarrow>
     \<exists>r. v = Fin r \<and> map_of m k = Some (Fin r) \<and> weight m k = r"
  unfolding finite_terms_def weight_def
  by (cases v) (auto simp: list_all_iff)

lemma weight_None: "map_of m k = None \<Longrightarrow> weight m k = 0"
  by (simp add: weight_def)

lemma map_of_finite_Some:
  "finite_terms m \<Longrightarrow> map_of m k = Some u \<Longrightarrow> \<exists>q. u = Fin q \<and> weight m k = q"
  using map_of_finite_terms[of m k u] by (auto dest: map_of_SomeD)

subsection \<open>\<^verbatim>\<open>DistanceFrom\<close> over the union of the keys\<close>

lemma DistanceFrom_sum:
  assumes fs: "finite_terms (repTerms s)" and fa: "finite_terms (repTerms a)"
  shows "DistanceFrom s a =
     Fin (\<Sum>k \<in> fst ` set (repTerms s) \<union> fst ` set (repTerms a).
            (weight (repTerms s) k - weight (repTerms a) k)\<^sup>2)"
proof -
  let ?S = "repTerms s" and ?A = "repTerms a"
  let ?KS = "fst ` set ?S" and ?KA = "fst ` set ?A"
  let ?h = "\<lambda>k. (weight ?S k - weight ?A k)\<^sup>2"
  let ?g1 = "\<lambda>k. if k \<in> ?KA then ?h k else 0"
  let ?g2 = "\<lambda>k. if k \<in> ?KA then 0 else ?h k"
  let ?g3 = "\<lambda>k. if k \<in> ?KS then 0 else ?h k"
  let ?F1 = "\<lambda>(k, v) d. case map_of ?A k of
                 Some u \<Rightarrow> f64_add d (f64_mul (f64_sub v u) (f64_sub v u)) | None \<Rightarrow> d"
  let ?F2 = "\<lambda>(k, v) d. case map_of ?A k of
                 None \<Rightarrow> f64_add d (f64_mul v v) | Some _ \<Rightarrow> d"
  let ?F3 = "\<lambda>(k, u) d. case map_of ?S k of
                 None \<Rightarrow> f64_add d (f64_mul u u) | Some _ \<Rightarrow> d"
  have dS: "distinct (map fst ?S)" and dA: "distinct (map fst ?A)"
    using fs fa by (simp_all add: finite_terms_def)
  have s1: "?F1 (k, v) (Fin d) = Fin (d + ?g1 k)" if kv: "(k, v) \<in> set ?S" for k v d
  proof -
    obtain r where r: "v = Fin r" "weight ?S k = r"
      using map_of_finite_terms[OF fs kv] by blast
    show ?thesis
    proof (cases "map_of ?A k")
      case None
      then have "k \<notin> ?KA" by (simp add: map_of_eq_None_iff)
      with None show ?thesis by simp
    next
      case (Some u)
      then obtain q where q: "u = Fin q" "weight ?A k = q"
        using map_of_finite_Some[OF fa] by blast
      from Some have "k \<in> ?KA" by (metis map_of_eq_None_iff option.distinct(1))
      with Some r q show ?thesis by (simp add: power2_eq_square)
    qed
  qed
  have s2: "?F2 (k, v) (Fin d) = Fin (d + ?g2 k)" if kv: "(k, v) \<in> set ?S" for k v d
  proof -
    obtain r where r: "v = Fin r" "weight ?S k = r"
      using map_of_finite_terms[OF fs kv] by blast
    show ?thesis
    proof (cases "map_of ?A k")
      case None
      then have "k \<notin> ?KA" by (simp add: map_of_eq_None_iff)
      with None r show ?thesis by (simp add: power2_eq_square weight_None)
    next
      case (Some u)
      then have "k \<in> ?KA" by (metis map_of_eq_None_iff option.distinct(1))
      with Some show ?thesis by simp
    qed
  qed
  have s3: "?F3 (k, u) (Fin d) = Fin (d + ?g3 k)" if kv: "(k, u) \<in> set ?A" for k u d
  proof -
    obtain q where q: "u = Fin q" "weight ?A k = q"
      using map_of_finite_terms[OF fa kv] by blast
    show ?thesis
    proof (cases "map_of ?S k")
      case None
      then have "k \<notin> ?KS" by (simp add: map_of_eq_None_iff)
      with None q show ?thesis by (simp add: power2_eq_square weight_None)
    next
      case (Some v)
      then have "k \<in> ?KS" by (metis map_of_eq_None_iff option.distinct(1))
      with Some show ?thesis by simp
    qed
  qed
  have f1: "fold ?F1 ?S (Fin 0) = Fin (0 + sum ?g1 ?KS)"
    by (rule fold_Fin_sum[OF dS]) (rule s1)
  have f2: "fold ?F2 ?S (Fin (sum ?g1 ?KS)) = Fin (sum ?g1 ?KS + sum ?g2 ?KS)"
    by (rule fold_Fin_sum[OF dS]) (rule s2)
  have f3: "fold ?F3 ?A (Fin (sum ?g1 ?KS + sum ?g2 ?KS))
              = Fin (sum ?g1 ?KS + sum ?g2 ?KS + sum ?g3 ?KA)"
    by (rule fold_Fin_sum[OF dA]) (rule s3)
  have "sum ?g1 ?KS + sum ?g2 ?KS = sum ?h ?KS"
    unfolding sum.distrib[symmetric] by (rule sum.cong) auto
  moreover have "sum ?g3 ?KA = sum ?h (?KA - ?KS)"
    by (simp add: sum.If_cases Diff_eq Int_commute) 
  moreover have "sum ?h ?KS + sum ?h (?KA - ?KS) = sum ?h (?KS \<union> ?KA)"
    by (subst sum.union_disjoint[symmetric]) (auto simp: Un_Diff_cancel)
  ultimately have "sum ?g1 ?KS + sum ?g2 ?KS + sum ?g3 ?KA = sum ?h (?KS \<union> ?KA)"
    by simp
  with f1 f2 f3 show ?thesis
    by (simp add: DistanceFrom_def Let_def)
qed

text \<open>
  C8. For two samples with finite weights, \<^verbatim>\<open>DistanceFrom\<close> is the sum, over the union of
  the keys of both, of the squared difference of the weights, a key missing on one side
  counting as weight 0 there (so a key of one operand only adds its squared weight); and for
  \<open>a = {x: 0.12, y: 0.22}\<close>, \<open>b = {x: 0.12, y: 0.22, z: 0.99}\<close> the distance is \<open>0.99\<^sup>2\<close>.
\<close>

theorem DistanceFrom_union_of_keys:
  "(finite_terms (repTerms s) \<and> finite_terms (repTerms a) \<longrightarrow>
      DistanceFrom s a =
        Fin (\<Sum>k \<in> fst ` set (repTerms s) \<union> fst ` set (repTerms a).
               (weight (repTerms s) k - weight (repTerms a) k)\<^sup>2))
   \<and> DistanceFrom scenario_a scenario_b = Fin (0.99\<^sup>2)"
proof
  show "finite_terms (repTerms s) \<and> finite_terms (repTerms a) \<longrightarrow>
      DistanceFrom s a =
        Fin (\<Sum>k \<in> fst ` set (repTerms s) \<union> fst ` set (repTerms a).
               (weight (repTerms s) k - weight (repTerms a) k)\<^sup>2)"
    using DistanceFrom_sum by blast
  show "DistanceFrom scenario_a scenario_b = Fin (0.99\<^sup>2)"
    by (simp add: DistanceFrom_def scenario_a_def scenario_b_def power2_eq_square)
qed

theorem DistanceFrom_union_of_keys_witness:
  "finite_terms (repTerms scenario_a) \<and> finite_terms (repTerms scenario_b)
   \<and> fst ` set (repTerms scenario_a) \<union> fst ` set (repTerms scenario_b) = {''x'', ''y'', ''z''}
   \<and> DistanceFrom scenario_a scenario_b =
        Fin (\<Sum>k \<in> {''x'', ''y'', ''z''}.
               (weight (repTerms scenario_a) k - weight (repTerms scenario_b) k)\<^sup>2)
   \<and> DistanceFrom scenario_b scenario_a = Fin (0.99\<^sup>2)"
proof -
  have fa: "finite_terms (repTerms scenario_a)" and fb: "finite_terms (repTerms scenario_b)"
    by (simp_all add: finite_terms_def scenario_a_def scenario_b_def)
  have ks: "fst ` set (repTerms scenario_a) \<union> fst ` set (repTerms scenario_b)
              = {''x'', ''y'', ''z''}"
    by (auto simp: scenario_a_def scenario_b_def)
  have sym: "DistanceFrom scenario_b scenario_a = Fin (0.99\<^sup>2)"
    by (simp add: DistanceFrom_def scenario_a_def scenario_b_def power2_eq_square)
  from DistanceFrom_union_of_keys [of scenario_a scenario_b] fa fb ks sym
  show ?thesis by simp
qed

subsection \<open>The cached norm\<close>

text \<open>
  C1. The cache is not reset by \<^verbatim>\<open>ScalarMul\<close> and \<^verbatim>\<open>Add\<close>: on the unit vector
  \<open>{x: 1}\<close>, \<^verbatim>\<open>Norm\<close> returns 1 and caches it; after \<^verbatim>\<open>ScalarMul(2)\<close>, and likewise
  after adding the vector to itself, the weights are \<open>{x: 2}\<close>, whose Euclidean norm is 2,
  and \<^verbatim>\<open>Norm\<close> still returns 1.
\<close>

theorem Norm_stale_after_mutation:
  "(let s1 = snd (Norm unit_x); s2 = ScalarMul s1 (Fin 2)
    in fst (Norm unit_x) = Fin 1 \<and> repTerms s2 = [(''x'', Fin 2)] \<and> fst (Norm s2) = Fin 1
       \<and> f64_sqrt (sum_squares (repTerms s2)) = Fin 2)
   \<and> (let s1 = snd (Norm unit_x); s2 = Add s1 unit_x
       in repTerms s2 = [(''x'', Fin 2)] \<and> fst (Norm s2) = Fin 1
          \<and> f64_sqrt (sum_squares (repTerms s2)) = Fin 2)"
  by (simp add: unit_x_def Norm_def ScalarMul_def Add_def sum_squares_def range_update_def
        get_def Let_def)

subsection \<open>\<^verbatim>\<open>Normalize\<close>\<close>

text \<open>
  C2. \<^verbatim>\<open>Normalize\<close> divides by the sum of the weights, not by the Euclidean norm: on
  \<open>{x: 1, y: 1}\<close> the weights become \<open>{x: 1/2, y: 1/2}\<close>, whose Euclidean norm is
  \<open>sqrt (1/2)\<close>, more than a quarter away from 1, while the cache is set to 1 and
  \<^verbatim>\<open>Norm\<close> returns 1. A second \<^verbatim>\<open>Normalize\<close> changes nothing.
\<close>

theorem Normalize_not_unit_norm:
  "repTerms (Normalize ones_xy) = [(''x'', Fin (1/2)), (''y'', Fin (1/2))]
   \<and> f64_sqrt (sum_squares (repTerms (Normalize ones_xy))) = Fin (sqrt (1/2))
   \<and> \<bar>sqrt (1/2) - 1\<bar> > 1/4
   \<and> fst (Norm (Normalize ones_xy)) = Fin 1
   \<and> Normalize (Normalize ones_xy) = Normalize ones_xy"
proof -
  have "sqrt (1/2) < sqrt ((3/4)\<^sup>2)"
    by (subst real_sqrt_less_iff) (simp add: power2_eq_square)
  then have "sqrt (1/2) < 3/4" by simp
  then have a: "\<bar>sqrt (1/2) - 1\<bar> > 1/4" by simp
  have b: "repTerms (Normalize ones_xy) = [(''x'', Fin (1/2)), (''y'', Fin (1/2))]"
    by (simp add: ones_xy_def Normalize_def range_update_def get_def)
  have c: "f64_sqrt (sum_squares [(''x'', Fin (1/2)), (''y'', Fin (1/2))]) = Fin (sqrt (1/2))"
    by (simp add: sum_squares_def)
  have d: "fst (Norm (Normalize ones_xy)) = Fin 1"
    by (simp add: ones_xy_def Normalize_def Norm_def)
  have e: "Normalize (Normalize ones_xy) = Normalize ones_xy"
    by (simp add: ones_xy_def Normalize_def range_update_def get_def)
  from a b c d e show ?thesis by simp
qed

text \<open>On distinct keys the rewriting loop is a map over the entries.\<close>

lemma update_append_fresh:
  "k \<notin> fst ` set xs \<Longrightarrow> AList.update k v (xs @ ys) = xs @ AList.update k v ys"
  by (induction xs) auto

lemma map_of_append_fresh:
  "k \<notin> fst ` set xs \<Longrightarrow> map_of (xs @ ys) k = map_of ys k"
  by (induction xs) auto

lemma range_update_aux:
  "distinct (map fst (xs @ ys)) \<Longrightarrow>
   fold (\<lambda>k m'. AList.update k (f (get m' k)) m') (map fst ys)
        (map (\<lambda>(k, v). (k, f v)) xs @ ys)
     = map (\<lambda>(k, v). (k, f v)) (xs @ ys)"
proof (induction ys arbitrary: xs)
  case Nil
  then show ?case by simp
next
  case (Cons p ys)
  obtain k v where p: "p = (k, v)" by (cases p)
  let ?g = "\<lambda>(k, v). (k, f v)"
  from Cons.prems p have fresh: "k \<notin> fst ` set (map ?g xs)" by force
  have g: "get (map ?g xs @ (k, v) # ys) k = v"
    unfolding get_def map_of_append_fresh[OF fresh] by simp
  have u: "AList.update k (f v) (map ?g xs @ (k, v) # ys) = map ?g (xs @ [(k, v)]) @ ys"
    using update_append_fresh[OF fresh] by simp
  have d: "distinct (map fst ((xs @ [(k, v)]) @ ys))" using Cons.prems p by simp
  show ?case using Cons.IH[OF d] p g u by simp
qed

lemma range_update_map:
  "distinct (map fst m) \<Longrightarrow> range_update f m = map (\<lambda>(k, v). (k, f v)) m"
  using range_update_aux[of "[]" m f] by (simp add: range_update_def)

lemma total_all_zero:
  "list_all (\<lambda>(k, v). v = Fin 0) m \<Longrightarrow> fold (\<lambda>(_, p) t. f64_add t p) m (Fin 0) = Fin 0"
  by (induction m) auto

text \<open>
  C7, as the claim states it, fails: \<^verbatim>\<open>Normalize\<close> has no result and no panic, and on the
  all-zero vector \<open>{x: 0, y: 0}\<close> it returns with both weights NaN and the cache at 1.
\<close>

theorem Normalize_zero_vector_silent_NaN:
  "Normalize zeros_xy =
     \<lparr>topicId = 1, repTerms = [(''x'', NaN), (''y'', NaN)], norm_cache = Fin 1\<rparr>"
  by (simp add: zeros_xy_def Normalize_def range_update_def get_def)

text \<open>
  C7, amended. On a sample whose weights are all zero \<^verbatim>\<open>Normalize\<close> signals nothing: it
  returns the sample with the same keys, every weight NaN (\<open>0/0\<close>) and the cached norm 1;
  an empty term map stays empty.
\<close>

theorem Normalize_all_zero:
  assumes "distinct (map fst (repTerms s))"
    and "list_all (\<lambda>(k, v). v = Fin 0) (repTerms s)"
  shows "Normalize s =
           s\<lparr>repTerms := map (\<lambda>(k, v). (k, NaN)) (repTerms s), norm_cache := Fin 1\<rparr>"
proof -
  have "map (\<lambda>(k, v). (k, f64_div v (Fin 0))) (repTerms s)
          = map (\<lambda>(k, v). (k, NaN)) (repTerms s)"
    using assms(2) by (induction "repTerms s") (auto simp: list_all_iff)
  then show ?thesis
    using assms by (simp add: Normalize_def total_all_zero range_update_map)
qed

theorem Normalize_all_zero_witness:
  "distinct (map fst (repTerms zero_x)) \<and> list_all (\<lambda>(k, v). v = Fin 0) (repTerms zero_x)
   \<and> Normalize zero_x = \<lparr>topicId = 7, repTerms = [(''x'', NaN)], norm_cache = Fin 1\<rparr>
   \<and> distinct (map fst (repTerms Zero)) \<and> list_all (\<lambda>(k, v). v = Fin 0) (repTerms Zero)
   \<and> Normalize Zero = \<lparr>topicId = 0, repTerms = [], norm_cache = Fin 1\<rparr>"
  using Normalize_all_zero [of zero_x] Normalize_all_zero [of Zero]
  by (simp add: zero_x_def Zero_def)


section \<open>Properties of clusters\<close>

text \<open>
  C10. \<^verbatim>\<open>RecalcCentroid\<close> on a cluster without members, in either mode, has no panic
  to raise: it allocates a new sample, leaves it as \<^verbatim>\<open>Zero()\<close> made it (identity 0, empty
  term map, cache 0: the factors \<open>1/0\<close> scale no entry) and makes it the centroid in place
  of the previous one.
\<close>

theorem RecalcCentroid_no_members:
  "Members c = [] \<Longrightarrow>
   RecalcCentroid st c isSperical
     = (st\<lparr>heap := heap st @ [Zero]\<rparr>, c\<lparr>Centroid := HeapRef (length (heap st))\<rparr>)
   \<and> load (st\<lparr>heap := heap st @ [Zero]\<rparr>) (HeapRef (length (heap st)))
       = \<lparr>topicId = 0, repTerms = [], norm_cache = Fin 0\<rparr>"
  by (simp add: RecalcCentroid_def Zero_ref_def ScalarMul_ref_def Norm_ref_def put_def load_def
        ScalarMul_def Norm_def Zero_def range_update_def sum_squares_def Let_def)

theorem RecalcCentroid_no_members_witness:
  "Members \<lparr>ClusterId = 1, Centroid = SampleRef 0, Members = []\<rparr> = []
   \<and> RecalcCentroid twins \<lparr>ClusterId = 1, Centroid = SampleRef 0, Members = []\<rparr> True
       = (twins\<lparr>heap := [\<lparr>topicId = 0, repTerms = [], norm_cache = Fin 0\<rparr>]\<rparr>,
          \<lparr>ClusterId = 1, Centroid = HeapRef 0, Members = []\<rparr>)
   \<and> RecalcCentroid twins \<lparr>ClusterId = 1, Centroid = SampleRef 0, Members = []\<rparr> False
       = (twins\<lparr>heap := [\<lparr>topicId = 0, repTerms = [], norm_cache = Fin 0\<rparr>]\<rparr>,
          \<lparr>ClusterId = 1, Centroid = HeapRef 0, Members = []\<rparr>)"
  using RecalcCentroid_no_members
          [of "\<lparr>ClusterId = 1, Centroid = SampleRef 0, Members = []\<rparr>" twins True]
        RecalcCentroid_no_members
          [of "\<lparr>ClusterId = 1, Centroid = SampleRef 0, Members = []\<rparr>" twins False]
  by (simp add: twins_def Zero_def)

text \<open>
  C6. \<^verbatim>\<open>PairwiseConsineSimStats\<close> divides the total by the number of members, not of
  pairs, and takes the root of the sum of squared deviations: for two members with the
  same weights there is one pair, of similarity 1, and the results are average 1/2 and
  deviation 1/2, where the average of the pair similarities is 1 and their deviation 0.
\<close>

theorem PairwiseConsineSimStats_two_members:
  "fst (snd (pair_sims twins [SampleRef 0, SampleRef 1])) = [Fin 1]
   \<and> fst (PairwiseConsineSimStats twins
            \<lparr>ClusterId = 1, Centroid = SampleRef 0, Members = [SampleRef 0, SampleRef 1]\<rparr>)
       = (Fin (1/2), Fin (1/2))"
  by (simp add: PairwiseConsineSimStats_def pair_sims_def CosineSim_def Norm_ref_def Norm_def
        load_def put_def twins_def sum_squares_def Let_def real_sqrt_divide)


section \<open>Properties of the seeding\<close>

lemma upto_1_2: "[1..2::int] = [1, 2]"
  by (simp add: upto.simps)

lemma upto_1_3: "[1..3::int] = [1, 2, 3]"
  by (simp add: upto.simps)

lemma candidates_line3:
  "candidates line3 {0} [\<lparr>ClusterId = 1, Centroid = SampleRef 0, Members = []\<rparr>]
     = [(1, Fin 1), (2, Fin 16)]"
  by (simp add: candidates_def shortestDist_def DistanceFrom_def load_def line3_def
        SampleSize_def MaxFloat64_def upt_rec Let_def)

text \<open>
  C3. The weight of a candidate is the square of the value \<^verbatim>\<open>DistanceFrom\<close> returns. On
  the corpus \<open>{x: 0}, {x: 1}, {x: 2}\<close> with the first sample drawn first, the candidates 1
  and 2 are at \<^verbatim>\<open>DistanceFrom\<close> 1 and 4 of it and get the weights 1 and 16; with the draw
  0.1 the second centroid is sample 2, where the cumulative distribution of the weights 1
  and 4 selects sample 1.
\<close>

theorem kMeanPlusPlus_weights_squared_twice:
  "DistanceFrom (load line3 (SampleRef 1)) (load line3 (SampleRef 0)) = Fin 1
   \<and> DistanceFrom (load line3 (SampleRef 2)) (load line3 (SampleRef 0)) = Fin 4
   \<and> candidates line3 {0} [\<lparr>ClusterId = 1, Centroid = SampleRef 0, Members = []\<rparr>]
       = [(1, Fin 1), (2, Fin 16)]
   \<and> kMeanPlusPlus line3 2 0 (\<lambda>_. 1/10)
       = Inr [\<lparr>ClusterId = 1, Centroid = SampleRef 0, Members = []\<rparr>,
              \<lparr>ClusterId = 2, Centroid = SampleRef 2, Members = []\<rparr>]
   \<and> normalizeIndexDist [(1, Fin 1), (2, Fin 4)] = Inr [(1, Fin (1/5)), (2, Fin 1)]
   \<and> pick [(1, Fin (1/5)), (2, Fin 1)] (Fin (1/10)) 0 = 1"
proof -
  have d: "DistanceFrom (load line3 (SampleRef 1)) (load line3 (SampleRef 0)) = Fin 1"
    "DistanceFrom (load line3 (SampleRef 2)) (load line3 (SampleRef 0)) = Fin 4"
    by (simp_all add: DistanceFrom_def load_def line3_def)
  have k: "kMeanPlusPlus line3 2 0 (\<lambda>_. 1/10)
       = Inr [\<lparr>ClusterId = 1, Centroid = SampleRef 0, Members = []\<rparr>,
              \<lparr>ClusterId = 2, Centroid = SampleRef 2, Members = []\<rparr>]"
    by (simp add: kMeanPlusPlus_def seed_round_def upto_1_2 candidates_line3
          normalizeIndexDist_def Sample_def)
       (simp add: line3_def SampleSize_def)
  have n: "normalizeIndexDist [(1, Fin 1), (2, Fin 4)] = Inr [(1, Fin (1/5)), (2, Fin 1)]"
    "pick [(1, Fin (1/5)), (2, Fin 1)] (Fin (1/10)) 0 = 1"
    by (simp_all add: normalizeIndexDist_def)
  from d k n candidates_line3 show ?thesis by simp
qed

lemma candidates_twins:
  "candidates twins {0} cs
     = [(1, f64_mul (shortestDist twins (SampleRef 1) cs) (shortestDist twins (SampleRef 1) cs))]"
  by (simp add: candidates_def twins_def SampleSize_def upt_rec Let_def)

text \<open>
  C4. When every candidate is at distance 0 of a chosen centroid, the weights sum to 0, the
  normalised values are \<open>0/0\<close>, none exceeds the draw, and \<open>ind\<close> keeps the index of the
  round before: on two samples with the same weights and \<open>k = 2\<close> both clusters have
  sample 0 as centroid.
\<close>

theorem kMeanPlusPlus_repeats_centroid:
  "kMeanPlusPlus twins 2 0 (\<lambda>_. 1/2)
     = Inr [\<lparr>ClusterId = 1, Centroid = SampleRef 0, Members = []\<rparr>,
            \<lparr>ClusterId = 2, Centroid = SampleRef 0, Members = []\<rparr>]"
  by (simp add: kMeanPlusPlus_def seed_round_def upto_1_2 candidates_twins
        normalizeIndexDist_def Sample_def)
     (simp add: twins_def SampleSize_def shortestDist_def DistanceFrom_def load_def
        MaxFloat64_def)


subsection \<open>Rounds of the seeding\<close>

lemma candidates_fold:
  "fold (\<lambda>sIndex indexD.
             if sIndex \<notin> indList
             then (let sd = shortestDist st (SampleRef sIndex) clusters
                   in indexD @ [(sIndex, f64_mul sd sd)])
             else indexD) xs acc
   = acc @ map (\<lambda>j. (j, f64_mul (shortestDist st (SampleRef j) clusters)
                                 (shortestDist st (SampleRef j) clusters)))
               (filter (\<lambda>j. j \<notin> indList) xs)"
  by (induction xs arbitrary: acc) (simp_all add: Let_def)

lemma candidates_map:
  "candidates st indList clusters
     = map (\<lambda>j. (j, f64_mul (shortestDist st (SampleRef j) clusters)
                             (shortestDist st (SampleRef j) clusters)))
           (filter (\<lambda>j. j \<notin> indList) [0 ..< SampleSize st])"
  by (simp add: candidates_def candidates_fold)

lemma fst_candidates:
  "fst ` set (candidates st indList clusters) = {j. j < SampleSize st \<and> j \<notin> indList}"
  by (auto simp: candidates_map image_iff)

text \<open>A round after the first that finds every corpus index chosen panics.\<close>

lemma seed_round_exhausted:
  assumes "i \<noteq> 1" and "{0 ..< SampleSize st} \<subseteq> indList"
  shows "seed_round st rInt rFloat i (clusters, indList, ind) = Inl IndexOutOfRange"
proof -
  from assms(2) have "fst ` set (candidates st indList clusters) = {}"
    by (auto simp: fst_candidates)
  then have "candidates st indList clusters = []" by simp
  with assms(1) show ?thesis by (simp add: seed_round_def normalizeIndexDist_def)
qed

text \<open>A round that completes appends one cluster, whose centroid is a corpus sample.\<close>

lemma seed_round_seeded:
  assumes sd: "seeded st (clusters, indList, ind)"
    and r: "seed_round st rInt rFloat i (clusters, indList, ind) = Inr (clusters', indList', ind')"
  shows "seeded st (clusters', indList', ind') \<and> length clusters' = Suc (length clusters)"
proof -
  from r have "\<exists>j. j < SampleSize st
      \<and> clusters' = clusters @ [\<lparr>ClusterId = i, Centroid = SampleRef j, Members = []\<rparr>]
      \<and> indList' = insert j indList"
    by (auto simp: seed_round_def Sample_def split: if_splits sum.splits)
  then obtain j where j: "j < SampleSize st"
    and c: "clusters' = clusters @ [\<lparr>ClusterId = i, Centroid = SampleRef j, Members = []\<rparr>]"
    and l: "indList' = insert j indList"
    by blast
  from sd j c l show ?thesis by (auto simp: seeded_def)
qed

lemma for_each_append:
  "for_each body (xs @ ys) s
     = (case for_each body xs s of Inl e \<Rightarrow> Inl e | Inr s' \<Rightarrow> for_each body ys s')"
  by (induction xs arbitrary: s) (auto split: sum.splits)

lemma for_each_seeded:
  "seeded st s \<Longrightarrow> for_each (seed_round st rInt rFloat) xs s = Inr s' \<Longrightarrow>
   seeded st s' \<and> length (fst s') = length (fst s) + length xs"
proof (induction xs arbitrary: s)
  case Nil
  then show ?case by simp
next
  case (Cons i xs)
  from Cons.prems(2) obtain s1 where
    one: "seed_round st rInt rFloat i s = Inr s1"
    and rest: "for_each (seed_round st rInt rFloat) xs s1 = Inr s'"
    by (auto split: sum.splits)
  obtain clusters indList ind where s: "s = (clusters, indList, ind)" by (cases s)
  obtain clusters1 indList1 ind1 where s1: "s1 = (clusters1, indList1, ind1)" by (cases s1)
  from seed_round_seeded[OF Cons.prems(1)[unfolded s] one[unfolded s s1]]
  have "seeded st s1" "length (fst s1) = Suc (length (fst s))" by (simp_all add: s s1)
  with Cons.IH[OF _ rest] show ?case by simp
qed

subsection \<open>More clusters than samples\<close>

lemma candidates_pair01:
  "candidates pair01 {0} cs
     = [(1, f64_mul (shortestDist pair01 (SampleRef 1) cs)
                    (shortestDist pair01 (SampleRef 1) cs))]"
  by (simp add: candidates_def pair01_def SampleSize_def upt_rec Let_def)

lemma candidates_pair01_none: "candidates pair01 {Suc 0, 0} cs = []"
  by (simp add: candidates_def pair01_def SampleSize_def upt_rec Let_def)

text \<open>
  C5, as the claim states it, fails: nothing checks \<open>k\<close> against the corpus. On the corpus
  \<open>{x: 0}, {x: 1}\<close> with \<open>k = 3\<close> two centroids are drawn and round 3 finds no candidate:
  \<^verbatim>\<open>normalizeIndexDist\<close> reads \<^verbatim>\<open>indexD[-1]\<close> and the run ends in that panic.
\<close>

theorem KMeanCluster_panics_out_of_range:
  "KMeanCluster 1 pair01 3 0 (\<lambda>_. 1/2) = Some (Inl IndexOutOfRange)"
  by (simp add: KMeanCluster_def kMeanPlusPlus_def seed_round_def upto_1_3 candidates_pair01
        candidates_pair01_none normalizeIndexDist_def Sample_def)
     (simp add: pair01_def SampleSize_def shortestDist_def DistanceFrom_def load_def
        MaxFloat64_def)

lemma upto_first: "1 \<le> k \<Longrightarrow> [1..k] = 1 # [int 1 + 1 .. k]"
  by (subst upto_rec1) auto

lemma kMeanPlusPlus_empty_corpus:
  "SampleSize st = 0 \<Longrightarrow> 1 \<le> k \<Longrightarrow> kMeanPlusPlus st k rInt rFloat = Inl IntegerDivideByZero"
  by (simp add: kMeanPlusPlus_def upto_first seed_round_def)

lemma kMeanPlusPlus_no_rounds:
  "k \<le> 0 \<Longrightarrow> kMeanPlusPlus st k rInt rFloat = Inr []"
  by (simp add: kMeanPlusPlus_def)

lemma kMean_nothing:
  "SampleSize st = 0 \<Longrightarrow> kMean (Suc fuel) st [] isSpherical = Some (Inr (st, []))"
  by (simp add: assignment_def cloneClusterCentroids_def update_centroids_def
        clustersAreEqual_def)

text \<open>
  When the first \<open>SampleSize\<close> rounds have chosen \<open>SampleSize\<close> different samples, no
  index is left for the next round.
\<close>

lemma kMeanPlusPlus_pool_exhausted:
  assumes n: "0 < SampleSize st" and k: "int (SampleSize st) < k"
    and r: "kMeanPlusPlus st (int (SampleSize st)) rInt rFloat = Inr cs"
    and d: "distinct (map Centroid cs)"
  shows "kMeanPlusPlus st k rInt rFloat = Inl IndexOutOfRange"
proof -
  let ?n = "SampleSize st"
  let ?round = "seed_round st rInt rFloat"
  from r obtain indList ind where
    f: "for_each ?round [1 .. int ?n] ([], {}, 0) = Inr (cs, indList, ind)"
    by (auto simp: kMeanPlusPlus_def split: sum.splits)
  have "seeded st ([], {}, 0)" by (simp add: seeded_def)
  from for_each_seeded[OF this f]
  have sd: "seeded st (cs, indList, ind)" and len: "length cs = ?n" by simp_all
  from sd have sub: "indList \<subseteq> {0 ..< ?n}"
    and cen: "Centroid ` set cs = SampleRef ` indList"
    by (simp_all add: seeded_def)
  from sub have fin: "finite indList" by (rule finite_subset) simp
  have "card indList = card (SampleRef ` indList)"
    by (simp add: card_image inj_on_def)
  also have "\<dots> = card (set (map Centroid cs))" using cen by simp
  also have "\<dots> = ?n" using d len by (simp only: distinct_card length_map)
  finally have "card indList = card {0 ..< ?n}" by simp
  with sub have all: "indList = {0 ..< ?n}" by (intro card_subset_eq) simp_all
  from n have "int ?n + 1 \<noteq> 1" by simp
  from seed_round_exhausted[OF this, of st indList rInt rFloat cs ind] all
  have ex: "?round (int ?n + 1) (cs, indList, ind) = Inl IndexOutOfRange" by simp
  from n k have "[1 .. k] = [1 .. int ?n] @ [int ?n + 1 .. k]"
    by (intro upto_split2) simp_all
  moreover from k have "[int ?n + 1 .. k] = (int ?n + 1) # [int ?n + 1 + 1 .. k]"
    by (intro upto_rec1) simp
  ultimately show ?thesis
    using f ex by (simp add: kMeanPlusPlus_def for_each_append)
qed

lemma candidates_line3_last:
  "candidates line3 {2, 0}
     [\<lparr>ClusterId = 1, Centroid = SampleRef 0, Members = []\<rparr>,
      \<lparr>ClusterId = 2, Centroid = SampleRef 2, Members = []\<rparr>]
     = [(1, Fin 1)]"
  by (simp add: candidates_def shortestDist_def DistanceFrom_def load_def line3_def
        SampleSize_def MaxFloat64_def upt_rec Let_def)

lemma kMeanPlusPlus_line3:
  "kMeanPlusPlus line3 3 0 (\<lambda>_. 1/10)
     = Inr [\<lparr>ClusterId = 1, Centroid = SampleRef 0, Members = []\<rparr>,
            \<lparr>ClusterId = 2, Centroid = SampleRef 2, Members = []\<rparr>,
            \<lparr>ClusterId = 3, Centroid = SampleRef 1, Members = []\<rparr>]"
  by (simp add: kMeanPlusPlus_def seed_round_def upto_1_3 candidates_line3
        candidates_line3_last normalizeIndexDist_def Sample_def)
     (simp add: line3_def SampleSize_def)

text \<open>
  C5, amended. On an empty corpus with \<open>k \<ge> 1\<close> the seeding, and with it
  \<^verbatim>\<open>KMeanCluster\<close> whatever the bound on the iterations, ends in the panic of the division
  by zero of the first draw; on an empty corpus with \<open>k \<le> 0\<close> \<^verbatim>\<open>KMeanCluster\<close> returns no
  cluster and no error. With \<open>k > SampleSize \<ge> 1\<close>: whenever the seeding of
  \<open>SampleSize\<close> clusters from the same draws returns centroids that are pairwise
  different, the seeding of \<open>k\<close> clusters, and with it \<^verbatim>\<open>KMeanCluster\<close> whatever the bound
  on the iterations, ends in the panic of the out-of-range access.
\<close>

theorem KMeanCluster_no_parameter_check:
  "(SampleSize st = 0 \<and> 1 \<le> k \<longrightarrow>
      kMeanPlusPlus st k rInt rFloat = Inl IntegerDivideByZero
      \<and> KMeanCluster fuel st k rInt rFloat = Some (Inl IntegerDivideByZero))
   \<and> (SampleSize st = 0 \<and> k \<le> 0 \<longrightarrow>
      KMeanCluster (Suc fuel) st k rInt rFloat = Some (Inr (st, [])))
   \<and> (0 < SampleSize st \<and> int (SampleSize st) < k
       \<and> (\<exists>cs. kMeanPlusPlus st (int (SampleSize st)) rInt rFloat = Inr cs
                \<and> distinct (map Centroid cs)) \<longrightarrow>
      kMeanPlusPlus st k rInt rFloat = Inl IndexOutOfRange
      \<and> KMeanCluster fuel st k rInt rFloat = Some (Inl IndexOutOfRange))"
proof (intro conjI impI)
  assume "SampleSize st = 0 \<and> 1 \<le> k"
  then show "kMeanPlusPlus st k rInt rFloat = Inl IntegerDivideByZero"
    by (simp add: kMeanPlusPlus_empty_corpus)
  then show "KMeanCluster fuel st k rInt rFloat = Some (Inl IntegerDivideByZero)"
    by (simp add: KMeanCluster_def)
next
  assume "SampleSize st = 0 \<and> k \<le> 0"
  then show "KMeanCluster (Suc fuel) st k rInt rFloat = Some (Inr (st, []))"
    by (simp add: KMeanCluster_def kMeanPlusPlus_no_rounds kMean_nothing del: kMean.simps)
next
  assume a: "0 < SampleSize st \<and> int (SampleSize st) < k
       \<and> (\<exists>cs. kMeanPlusPlus st (int (SampleSize st)) rInt rFloat = Inr cs
                \<and> distinct (map Centroid cs))"
  then obtain cs where "kMeanPlusPlus st (int (SampleSize st)) rInt rFloat = Inr cs"
    "distinct (map Centroid cs)" by blast
  with a show p: "kMeanPlusPlus st k rInt rFloat = Inl IndexOutOfRange"
    by (intro kMeanPlusPlus_pool_exhausted) simp_all
  then show "KMeanCluster fuel st k rInt rFloat = Some (Inl IndexOutOfRange)"
    by (simp add: KMeanCluster_def)
qed

theorem KMeanCluster_no_parameter_check_witness:
  "SampleSize no_samples = 0 \<and> (1::int) \<le> 1
   \<and> KMeanCluster 5 no_samples 1 0 (\<lambda>_. 1/10) = Some (Inl IntegerDivideByZero)
   \<and> (0::int) \<le> 0
   \<and> KMeanCluster (Suc 5) no_samples 0 0 (\<lambda>_. 1/10) = Some (Inr (no_samples, []))
   \<and> 0 < SampleSize line3 \<and> int (SampleSize line3) < 5
   \<and> kMeanPlusPlus line3 (int (SampleSize line3)) 0 (\<lambda>_. 1/10)
       = Inr [\<lparr>ClusterId = 1, Centroid = SampleRef 0, Members = []\<rparr>,
              \<lparr>ClusterId = 2, Centroid = SampleRef 2, Members = []\<rparr>,
              \<lparr>ClusterId = 3, Centroid = SampleRef 1, Members = []\<rparr>]
   \<and> distinct [SampleRef 0, SampleRef 2, SampleRef 1]
   \<and> kMeanPlusPlus line3 5 0 (\<lambda>_. 1/10) = Inl IndexOutOfRange
   \<and> KMeanCluster 5 line3 5 0 (\<lambda>_. 1/10) = Some (Inl IndexOutOfRange)"
proof -
  have size: "SampleSize line3 = 3" by (simp add: line3_def SampleSize_def)
  have seed: "kMeanPlusPlus line3 (int (SampleSize line3)) 0 (\<lambda>_. 1/10)
       = Inr [\<lparr>ClusterId = 1, Centroid = SampleRef 0, Members = []\<rparr>,
              \<lparr>ClusterId = 2, Centroid = SampleRef 2, Members = []\<rparr>,
              \<lparr>ClusterId = 3, Centroid = SampleRef 1, Members = []\<rparr>]"
    using kMeanPlusPlus_line3 by (simp add: size)
  from KMeanCluster_no_parameter_check [of no_samples 1 0 "\<lambda>_. 1/10" 5]
  have a: "KMeanCluster 5 no_samples 1 0 (\<lambda>_. 1/10) = Some (Inl IntegerDivideByZero)"
    by (simp add: no_samples_def SampleSize_def)
  from KMeanCluster_no_parameter_check [of no_samples 0 0 "\<lambda>_. 1/10" 5]
  have b: "KMeanCluster (Suc 5) no_samples 0 0 (\<lambda>_. 1/10) = Some (Inr (no_samples, []))"
    by (simp add: no_samples_def SampleSize_def del: kMean.simps)
  from KMeanCluster_no_parameter_check [of line3 5 0 "\<lambda>_. 1/10" 5] seed
  have c: "kMeanPlusPlus line3 5 0 (\<lambda>_. 1/10) = Inl IndexOutOfRange
           \<and> KMeanCluster 5 line3 5 0 (\<lambda>_. 1/10) = Some (Inl IndexOutOfRange)"
    by (simp add: size)
  have none: "SampleSize no_samples = 0" by (simp add: no_samples_def SampleSize_def)
  from a b c seed none show ?thesis
    by (simp add: size)
qed


section \<open>Properties of the assignment pass\<close>

lemma same_ids_refl: "same_ids st st" by (simp add: same_ids_def)
lemma same_ids_trans: "same_ids a b \<Longrightarrow> same_ids b c \<Longrightarrow> same_ids a c" by (simp add: same_ids_def)

lemma topicId_Norm: "topicId (snd (Norm s)) = topicId s"
  by (simp add: Norm_def Let_def)

lemma map_update_same: "f v = f (xs ! i) \<Longrightarrow> map f (xs[i := v]) = map f xs"
  by (metis list_update_beyond list_update_id map_update not_le_imp_less length_map nth_map)

lemma same_ids_put: "topicId v = topicId (load st r) \<Longrightarrow> same_ids st (put st r v)"
  by (cases r) (simp_all add: same_ids_def put_def load_def map_update_same)

lemma same_ids_Norm_ref: "same_ids st (snd (Norm_ref st r))"
  by (simp add: Norm_ref_def split_beta Let_def same_ids_put topicId_Norm)

lemma same_ids_CosineSim: "same_ids st (snd (CosineSim st s c))"
  unfolding CosineSim_def Let_def split_beta snd_conv
  by (rule same_ids_trans[OF same_ids_Norm_ref same_ids_Norm_ref])

lemma nc_fold:
  "fold (nearest_step sample sph) (enumerate n cs) (index, d, s, st) = (index', d', s', st') \<Longrightarrow>
   (index' = index \<or> (n \<le> index' \<and> index' < n + length cs)) \<and> same_ids st st'"
proof (induction cs arbitrary: n index d s st)
  case Nil
  then show ?case by (simp add: same_ids_refl)
next
  case (Cons c cs)
  obtain i1 d1 s1 st1 where step: "nearest_step sample sph (n, c) (index, d, s, st) = (i1, d1, s1, st1)"
    by (metis prod_cases4)
  have a: "(i1 = index \<or> i1 = n) \<and> same_ids st st1"
    using step same_ids_CosineSim[of st sample "Centroid c"]
    by (auto simp: nearest_step_def Let_def split_beta same_ids_refl split: if_splits)
  from Cons.prems step have "fold (nearest_step sample sph) (enumerate (Suc n) cs) (i1, d1, s1, st1) = (index', d', s', st')"
    by simp
  from Cons.IH[OF this] a show ?case by (auto intro: same_ids_trans)
qed

lemma nearestCentroid_props:
  assumes "nearestCentroid st sample clusters sph = (index, st')"
  shows "(clusters \<noteq> [] \<longrightarrow> index < length clusters) \<and> same_ids st st'"
proof -
  obtain i d s st2 where f: "fold (nearest_step sample sph) (enumerate 0 clusters) (0, MaxFloat64, Fin 0, st) = (i, d, s, st2)"
    by (metis prod_cases4)
  with assms have "index = i" "st' = st2"
    by (simp_all add: nearestCentroid_def)
  with nc_fold[OF f] show ?thesis by auto
qed

lemma clone_append:
  "fold (\<lambda>c newCluster. newCluster @ [\<lparr>ClusterId = ClusterId c, Centroid = Centroid c, Members = []\<rparr>]) cs acc
     = acc @ map (\<lambda>c. \<lparr>ClusterId = ClusterId c, Centroid = Centroid c, Members = []\<rparr>) cs"
  by (induction cs arbitrary: acc) auto

lemma cloneClusterCentroids_map:
  "cloneClusterCentroids cs = map (\<lambda>c. \<lparr>ClusterId = ClusterId c, Centroid = Centroid c, Members = []\<rparr>) cs"
  by (simp add: cloneClusterCentroids_def clone_append)

lemma members_clone: "concat (map Members (cloneClusterCentroids cs)) = []"
  by (simp add: cloneClusterCentroids_map)

lemma length_clone: "length (cloneClusterCentroids cs) = length cs"
  by (simp add: cloneClusterCentroids_map)

lemma mset_members_add:
  "index < length ncs \<Longrightarrow>
   mset (concat (map Members (ncs[index := add (ncs ! index) x])))
     = mset (concat (map Members ncs)) + {#x#}"
proof (induction ncs arbitrary: index)
  case Nil
  then show ?case by simp
next
  case (Cons c ncs)
  then show ?case by (cases index) (simp_all add: add_def)
qed

lemma assign_one_props:
  assumes "assign_one clusters sph i (st, ncs) = Inr (st', ncs')"
  shows "i < SampleSize st \<and> same_ids st st' \<and> length ncs' = length ncs
         \<and> mset (concat (map Members ncs')) = mset (concat (map Members ncs)) + {#SampleRef i#}"
proof -
  obtain index st1 where nc: "nearestCentroid st (SampleRef i) clusters sph = (index, st1)"
    by (cases "nearestCentroid st (SampleRef i) clusters sph")
  from assms nc have i: "i < SampleSize st" and ix: "index < length ncs"
    and r: "st' = st1" "ncs' = ncs[index := add (ncs ! index) (SampleRef i)]"
    by (auto simp: assign_one_def Sample_def split: if_splits)
  from nearestCentroid_props[OF nc] have "same_ids st st1" by simp
  with i ix r mset_members_add[OF ix] show ?thesis by simp
qed

lemma assign_one_total:
  assumes "i < SampleSize st" "clusters \<noteq> []" "length ncs = length clusters"
  shows "\<exists>res. assign_one clusters sph i (st, ncs) = Inr res"
proof -
  obtain index st1 where nc: "nearestCentroid st (SampleRef i) clusters sph = (index, st1)"
    by (cases "nearestCentroid st (SampleRef i) clusters sph")
  from nearestCentroid_props[OF nc] assms have "index < length ncs" by simp
  with assms nc show ?thesis by (simp add: assign_one_def Sample_def)
qed

lemma same_ids_size: "same_ids st st' \<Longrightarrow> SampleSize st' = SampleSize st"
  unfolding same_ids_def SampleSize_def by (metis length_map)

lemma for_each_assign_props:
  "for_each (assign_one clusters sph) xs (st, ncs) = Inr (st', ncs') \<Longrightarrow>
   same_ids st st' \<and> length ncs' = length ncs
   \<and> mset (concat (map Members ncs')) = mset (concat (map Members ncs)) + mset (map SampleRef xs)"
proof (induction xs arbitrary: st ncs)
  case Nil
  then show ?case by (simp add: same_ids_refl)
next
  case (Cons i xs)
  from Cons.prems obtain st1 ncs1 where
    one: "assign_one clusters sph i (st, ncs) = Inr (st1, ncs1)"
    and rest: "for_each (assign_one clusters sph) xs (st1, ncs1) = Inr (st', ncs')"
    by (auto split: sum.splits)
  from assign_one_props[OF one] Cons.IH[OF rest] show ?case
    by (auto intro: same_ids_trans)
qed

lemma for_each_assign_total:
  "clusters \<noteq> [] \<Longrightarrow> length ncs = length clusters \<Longrightarrow> \<forall>i \<in> set xs. i < SampleSize st \<Longrightarrow>
   \<exists>res. for_each (assign_one clusters sph) xs (st, ncs) = Inr res"
proof (induction xs arbitrary: st ncs)
  case Nil
  then show ?case by simp
next
  case (Cons i xs)
  from Cons.prems have "i < SampleSize st" by simp
  from assign_one_total[OF this Cons.prems(1,2)] obtain st1 ncs1 where
    one: "assign_one clusters sph i (st, ncs) = Inr (st1, ncs1)" by force
  from assign_one_props[OF one] have p: "same_ids st st1" "length ncs1 = length ncs" by simp_all
  from same_ids_size[OF p(1)] Cons.prems(3) have "\<forall>i \<in> set xs. i < SampleSize st1" by simp
  from Cons.IH[OF Cons.prems(1) _ this, of ncs1] p Cons.prems(2) one show ?case by simp
qed

lemma ids_of_members:
  assumes "mset ms = mset (map SampleRef [0 ..< SampleSize st'])"
  shows "mset (map (\<lambda>r. Id_of (load st' r)) ms) = mset (map Id_of (samples st'))"
proof -
  let ?f = "\<lambda>r. Id_of (load st' r)"
  have "mset (map ?f ms) = image_mset ?f (mset ms)"
    by (simp only: mset_map)
  also have "\<dots> = image_mset ?f (mset (map SampleRef [0 ..< SampleSize st']))"
    by (simp only: assms)
  also have "\<dots> = mset (map ?f (map SampleRef [0 ..< SampleSize st']))"
    by (simp only: mset_map)
  also have "map ?f (map SampleRef [0 ..< SampleSize st'])
               = map Id_of (map (\<lambda>i. samples st' ! i) [0 ..< length (samples st')])"
    by (simp add: load_def SampleSize_def)
  also have "map (\<lambda>i. samples st' ! i) [0 ..< length (samples st')] = samples st'"
    by (rule map_nth)
  finally show ?thesis .
qed

lemma same_ids_Id_of: "same_ids st st' \<Longrightarrow> map Id_of (samples st') = map Id_of (samples st)"
  by (simp add: same_ids_def Id_of_def[abs_def])

text \<open>
  C9. An assignment pass that starts with at least one cluster completes, and after every
  completed pass, in either mode, the members of the new clusters taken together are the
  corpus samples \<open>0, \<dots>, SampleSize - 1\<close>, each exactly once: the multiset of the member
  references is the multiset of the corpus references, and the multiset of the member
  identities is the multiset of the corpus identities.
\<close>

theorem assignment_partition:
  "(clusters \<noteq> [] \<longrightarrow> (\<exists>res. assignment st clusters isSpherical = Inr res))
   \<and> (\<forall>st' newClusters. assignment st clusters isSpherical = Inr (st', newClusters) \<longrightarrow>
         length newClusters = length clusters
         \<and> mset (concat (map Members newClusters)) = mset (map SampleRef [0 ..< SampleSize st])
         \<and> mset (map (\<lambda>r. Id_of (load st' r)) (concat (map Members newClusters)))
             = mset (map Id_of (samples st)))"
proof (intro conjI impI allI)
  assume "clusters \<noteq> []"
  then show "\<exists>res. assignment st clusters isSpherical = Inr res"
    unfolding assignment_def
    by (intro for_each_assign_total) (simp_all add: length_clone)
next
  fix st' newClusters
  assume a: "assignment st clusters isSpherical = Inr (st', newClusters)"
  from for_each_assign_props[OF a[unfolded assignment_def]]
  have s: "same_ids st st'" and l: "length newClusters = length clusters"
    and m: "mset (concat (map Members newClusters)) = mset (map SampleRef [0 ..< SampleSize st])"
    by (simp_all add: length_clone members_clone)
  show "length newClusters = length clusters" by (rule l)
  show "mset (concat (map Members newClusters)) = mset (map SampleRef [0 ..< SampleSize st])"
    by (rule m)
  from m same_ids_size[OF s]
  have "mset (concat (map Members newClusters)) = mset (map SampleRef [0 ..< SampleSize st'])"
    by simp
  from ids_of_members[OF this] same_ids_Id_of[OF s]
  show "mset (map (\<lambda>r. Id_of (load st' r)) (concat (map Members newClusters)))
             = mset (map Id_of (samples st))"
    by (simp only:)
qed

lemma assignment_line3: "assignment line3 two_seeds False =
   Inr (line3, [\<lparr>ClusterId = 1, Centroid = SampleRef 0, Members = [SampleRef 0, SampleRef 1]\<rparr>,
                \<lparr>ClusterId = 2, Centroid = SampleRef 2, Members = [SampleRef 2]\<rparr>])"
  by (simp add: assignment_def assign_one_def cloneClusterCentroids_def two_seeds_def
        nearestCentroid_def nearest_step_def Sample_def SampleSize_def line3_def upt_rec enumerate_eq_zip
        DistanceFrom_def load_def MaxFloat64_def add_def Let_def)

lemma assignment_twins_spherical: "assignment twins [\<lparr>ClusterId = 1, Centroid = SampleRef 0, Members = []\<rparr>] True =
   Inr (\<lparr>samples = [\<lparr>topicId = 10, repTerms = [(''x'', Fin 1)], norm_cache = Fin 1\<rparr>,
                 \<lparr>topicId = 11, repTerms = [(''x'', Fin 1)], norm_cache = Fin 1\<rparr>],
      heap = []\<rparr>, [\<lparr>ClusterId = 1, Centroid = SampleRef 0, Members = [SampleRef 0, SampleRef 1]\<rparr>])"
  by (simp add: assignment_def assign_one_def cloneClusterCentroids_def 
        nearestCentroid_def nearest_step_def Sample_def SampleSize_def twins_def upt_rec enumerate_eq_zip
        CosineSim_def Norm_ref_def Norm_def sum_squares_def put_def load_def MaxFloat64_def add_def Let_def)

theorem assignment_partition_witness:
  "two_seeds \<noteq> []
   \<and> assignment line3 two_seeds False =
       Inr (line3,
            [\<lparr>ClusterId = 1, Centroid = SampleRef 0, Members = [SampleRef 0, SampleRef 1]\<rparr>,
             \<lparr>ClusterId = 2, Centroid = SampleRef 2, Members = [SampleRef 2]\<rparr>])
   \<and> mset [SampleRef 0, SampleRef 1, SampleRef 2] = mset (map SampleRef [0 ..< SampleSize line3])
   \<and> mset (map (\<lambda>r. Id_of (load line3 r)) [SampleRef 0, SampleRef 1, SampleRef 2])
        = mset (map Id_of (samples line3))
   \<and> (\<exists>st'. assignment twins [\<lparr>ClusterId = 1, Centroid = SampleRef 0, Members = []\<rparr>] True =
         Inr (st', [\<lparr>ClusterId = 1, Centroid = SampleRef 0,
                     Members = [SampleRef 0, SampleRef 1]\<rparr>])
         \<and> mset (map (\<lambda>r. Id_of (load st' r)) [SampleRef 0, SampleRef 1])
              = mset (map Id_of (samples twins)))"
  using assignment_partition [of two_seeds line3 False] assignment_line3
        assignment_partition
          [of "[\<lparr>ClusterId = 1, Centroid = SampleRef 0, Members = []\<rparr>]" twins True]
        assignment_twins_spherical
  by (simp add: two_seeds_def)

end
